theory Spec2Isabelle
  imports Main
begin

section \<open>The host element\<close>

text \<open>
  The render pipeline host (class \<open>LightWebComponent\<close>) manages an external element
  \<open>el\<close>. Of that element the class touches: its own property descriptors
  (\<open>Object.getOwnPropertyDescriptor\<close>, \<open>Object.defineProperty\<close>), what a write to
  one of its properties does (\<open>Object.assign\<close>), the static list
  \<open>el.constructor.observedAttributes\<close>, its shadow root and the three optional hooks
  \<open>preRender\<close>, \<open>render\<close>, \<open>postRender\<close>.
\<close>

type_synonym name = string

datatype exn = TypeError | ReferenceError | SyntaxError | NotSupportedError | HostError string

text \<open>
  An own property of the element is a data property (value, writable, enumerable,
  configurable), an accessor the host defined itself (what its getter currently returns,
  whether it has a setter, enumerable, configurable) or the accessor that
  \<open>watchForFieldChanges\<close> installs, whose getter and setter go through the component
  (it is enumerable and configurable and has no \<open>writable\<close> attribute).
\<close>

datatype 'v property =
    Data 'v bool bool bool
  | Accessor "'v option" bool bool bool
  | Intercepted

text \<open>
  What the prototype chain of the element holds for a name, as far as reading and writing
  the name on the element goes: a data property (value, writable) or an accessor (its
  getter, which is called on the element and computes its result from what reading the
  element's own properties gives, and whether it has a setter). The accessors of a class
  (\<open>get label() { return this._label }\<close>) and those of \<open>HTMLElement\<close>
  (\<open>title\<close>, \<open>id\<close>) are of this kind.
\<close>

datatype 'v inherited =
    InheritedData 'v bool
  | InheritedAccessor "(name \<rightharpoonup> 'v) \<Rightarrow> 'v option" bool

text \<open>A call returns, or throws; the mutations made before a throw stay.\<close>

datatype 's outcome = Returned 's | Threw exn 's

fun state_of :: "'s outcome \<Rightarrow> 's" where
  "state_of (Returned s) = s"
| "state_of (Threw e s) = s"

fun thrown :: "'s outcome \<Rightarrow> exn option" where
  "thrown (Returned s) = None"
| "thrown (Threw e s) = Some e"

text \<open>
  What host code can change of the element: its own properties, the content of its shadow
  root, and whether properties can still be added to it (\<open>Object.preventExtensions\<close>).
\<close>

record 'v host_state =
  props :: "name \<rightharpoonup> 'v property"
  shadowHTML :: string
  extensible :: bool

text \<open>
  A hook is code of the host. It is called with the element as \<open>this\<close>: it reads the
  values behind intercepted properties and the element's state, and it returns or throws;
  either way the element's state is left as the hook made it, so what a hook did before
  it threw stays.

  The hooks of this model do not call back into the component: they write no intercepted
  property and call none of its methods. A hook that does so starts a run of
  \<open>runRenderPipeline\<close> from inside the run that called it (\<open>setInterceptedProperty\<close>
  calls it), and that run calls the same hook again. Everything below that counts the
  steps of a run is therefore about hosts whose hooks do not call back.
\<close>

type_synonym 'v hook = "(name \<rightharpoonup> 'v) \<Rightarrow> 'v host_state \<Rightarrow> 'v host_state outcome"

text \<open>
  The setter that a write to a name reaches, on the element or on its prototype chain, is
  code of the host as well: from the value written and the own properties of the element
  to the own properties it leaves, returning or throwing. Like the hooks, the setters of
  this model do not call back into the component, and they do not write the shadow root.
\<close>

type_synonym 'v setter = "'v \<Rightarrow> (name \<rightharpoonup> 'v property) \<Rightarrow> (name \<rightharpoonup> 'v property) outcome"

record 'v host =
  state :: "'v host_state"
  inherited :: "name \<rightharpoonup> 'v inherited"
  setter :: "name \<Rightarrow> 'v setter"
  observedAttributes :: "name list option"
  hasShadowRoot :: bool
  preRender :: "'v hook option"
  render :: "'v hook option"
  postRender :: "'v hook option"

text \<open>
  Evaluating \<open>new Function(`return \`${template}\`;`).call(el)\<close> is the work of the
  JavaScript engine: a parameter of the model, from the template text and what the element
  shows (the store behind intercepted properties, the element's state) to the interpolated
  string or the exception thrown.
\<close>

type_synonym 'v evaluator = "string \<Rightarrow> (name \<rightharpoonup> 'v) \<Rightarrow> 'v host_state \<Rightarrow> exn + string"

section \<open>The component\<close>

datatype step = PreRenderStep | RenderStep | DefaultRenderStep | PostRenderStep

text \<open>
  The fields of the class, and two logs: \<open>console\<close> holds the calls to
  \<open>console.error\<close> (message and the exception passed with it), \<open>invoked\<close> the steps
  of \<open>customRenderPipeline\<close> that have been called, oldest first.
\<close>

record 'v LightWebComponent =
  el :: "'v host"
  renderPipelineEnabled :: bool
  rawTemplate :: "string option"
  rawStyles :: "string option"
  shadowProperties :: "name \<rightharpoonup> 'v"
  customRenderPipeline :: "step list"
  console :: "(string \<times> exn option) list"
  invoked :: "step list"

definition host_props :: "'v LightWebComponent \<Rightarrow> name \<rightharpoonup> 'v property" where
  "host_props c = props (state (el c))"

definition with_state :: "'v LightWebComponent \<Rightarrow> 'v host_state \<Rightarrow> 'v LightWebComponent" where
  "with_state c st = c\<lparr>el := (el c)\<lparr>state := st\<rparr>\<rparr>"

definition with_props ::
  "'v LightWebComponent \<Rightarrow> (name \<rightharpoonup> 'v property) \<Rightarrow> 'v LightWebComponent" where
  "with_props c p = with_state c ((state (el c))\<lparr>props := p\<rparr>)"

text \<open>\<open>x || null\<close> and \<open>!x\<close> on a value of type \<open>string | null | undefined\<close>.\<close>

definition or_null :: "string option \<Rightarrow> string option" where
  "or_null x = (case x of None \<Rightarrow> None | Some s \<Rightarrow> if s = [] then None else Some s)"

definition falsy :: "string option \<Rightarrow> bool" where
  "falsy x = (case x of None \<Rightarrow> True | Some s \<Rightarrow> s = [])"

text \<open>\<open>`${x}`\<close> on a value of type \<open>string | null\<close>.\<close>

definition interpolate :: "string option \<Rightarrow> string" where
  "interpolate x = (case x of None \<Rightarrow> ''null'' | Some s \<Rightarrow> s)"

text \<open>
  The constructor. \<open>attachShadow\<close> throws on an element that has a shadow root already;
  otherwise the root is attached, empty.
\<close>

definition build_pipeline :: "'v host \<Rightarrow> step list" where
  "build_pipeline tmp =
     (case preRender tmp of None \<Rightarrow> [] | Some f \<Rightarrow> [PreRenderStep]) @
     (case render tmp of None \<Rightarrow> [DefaultRenderStep] | Some f \<Rightarrow> [RenderStep]) @
     (case postRender tmp of None \<Rightarrow> [] | Some f \<Rightarrow> [PostRenderStep])"

definition LightWebComponent_new ::
  "'v host \<Rightarrow> string option \<Rightarrow> string option \<Rightarrow> exn + 'v LightWebComponent" where
  "LightWebComponent_new h template styles =
     (if hasShadowRoot h then Inl NotSupportedError
      else Inr \<lparr> el = h\<lparr>state := (state h)\<lparr>shadowHTML := []\<rparr>, hasShadowRoot := True\<rparr>,
                 renderPipelineEnabled = True,
                 rawTemplate = or_null template,
                 rawStyles = or_null styles,
                 shadowProperties = Map.empty,
                 customRenderPipeline = build_pipeline h,
                 console = [],
                 invoked = [] \<rparr>)"

text \<open>Reading \<open>el[name]\<close>.\<close>

definition getInterceptedProperty :: "'v LightWebComponent \<Rightarrow> name \<Rightarrow> 'v option" where
  "getInterceptedProperty c n = shadowProperties c n"

definition own_value :: "'v LightWebComponent \<Rightarrow> name \<Rightarrow> 'v option" where
  "own_value c n =
     (case host_props c n of
        None \<Rightarrow> None
      | Some (Data v w e cf) \<Rightarrow> Some v
      | Some (Accessor g s e cf) \<Rightarrow> g
      | Some Intercepted \<Rightarrow> getInterceptedProperty c n)"

definition host_get :: "'v LightWebComponent \<Rightarrow> name \<Rightarrow> 'v option" where
  "host_get c n =
     (case host_props c n of
        None \<Rightarrow>
          (case inherited (el c) n of
             None \<Rightarrow> None
           | Some (InheritedData v w) \<Rightarrow> Some v
           | Some (InheritedAccessor g s) \<Rightarrow> g (own_value c))
      | Some d \<Rightarrow> own_value c n)"

text \<open>
  One round of the loop of \<open>watchForFieldChanges\<close>. An accessor descriptor has no
  \<open>writable\<close> attribute and a missing descriptor is \<open>undefined\<close>, so the condition
  \<open>descriptor?.configurable && descriptor?.writable && descriptor?.enumerable\<close> holds
  only of a data property with the three flags set.
\<close>

definition interceptable :: "'v property option \<Rightarrow> bool" where
  "interceptable d =
     (case d of
        Some (Data v w e cf) \<Rightarrow> cf \<and> w \<and> e
      | Some (Accessor g s e cf) \<Rightarrow> False
      | Some Intercepted \<Rightarrow> False
      | None \<Rightarrow> False)"

definition intercept :: "'v LightWebComponent \<Rightarrow> name \<Rightarrow> 'v LightWebComponent" where
  "intercept c attr =
     (if interceptable (host_props c attr)
      then with_props (c\<lparr>shadowProperties := (shadowProperties c)(attr := host_get c attr)\<rparr>)
             ((host_props c)(attr \<mapsto> Intercepted))
      else c)"

definition watchForFieldChanges :: "'v LightWebComponent \<Rightarrow> 'v LightWebComponent" where
  "watchForFieldChanges c =
     (case observedAttributes (el c) of
        None \<Rightarrow> c
      | Some attrs \<Rightarrow> foldl intercept c attrs)"

text \<open>The pipeline.\<close>

definition evaluateTemplate ::
  "'v evaluator \<Rightarrow> 'v LightWebComponent \<Rightarrow> string \<times> 'v LightWebComponent" where
  "evaluateTemplate ev c =
     (case ev (interpolate (rawTemplate c)) (shadowProperties c) (state (el c)) of
        Inr s \<Rightarrow> (s, c)
      | Inl e \<Rightarrow> ([], c\<lparr>console := console c @ [(''Error evaluating template:'', Some e)]\<rparr>))"

definition evaluateStyles :: "'v LightWebComponent \<Rightarrow> string option" where
  "evaluateStyles c = rawStyles c"

definition renderTemplate ::
  "'v LightWebComponent \<Rightarrow> string option \<Rightarrow> string option \<Rightarrow> 'v LightWebComponent" where
  "renderTemplate c template styles =
     (if \<not> hasShadowRoot (el c) then c
      else with_state c ((state (el c))
             \<lparr>shadowHTML := ''<style>'' @ (case or_null styles of None \<Rightarrow> [] | Some s \<Rightarrow> s)
                              @ ''</style>'' @ interpolate template\<rparr>))"

definition defaultRenderPipeline ::
  "'v evaluator \<Rightarrow> 'v LightWebComponent \<Rightarrow> 'v LightWebComponent" where
  "defaultRenderPipeline ev c =
     (let (renderedTemplate, c1) = evaluateTemplate ev c;
          renderedStyles = evaluateStyles c1
      in renderTemplate c1 (Some renderedTemplate) renderedStyles)"

text \<open>
  \<open>() => tmp.preRender.call(this.el)\<close>: the hook is looked up when the step runs, and
  calling \<open>undefined.call\<close> is a TypeError. The element is as the hook left it, whether
  the hook returned or threw.
\<close>

definition call_hook :: "'v LightWebComponent \<Rightarrow> 'v hook option \<Rightarrow> 'v LightWebComponent outcome" where
  "call_hook c h =
     (case h of
        None \<Rightarrow> Threw TypeError c
      | Some f \<Rightarrow>
          (case f (shadowProperties c) (state (el c)) of
             Threw e st \<Rightarrow> Threw e (with_state c st)
           | Returned st \<Rightarrow> Returned (with_state c st)))"

text \<open>
  One step of \<open>customRenderPipeline\<close>. That it was called is recorded in \<open>invoked\<close>
  before it runs.
\<close>

definition run_step ::
  "'v evaluator \<Rightarrow> 'v LightWebComponent \<Rightarrow> step \<Rightarrow> 'v LightWebComponent outcome" where
  "run_step ev c0 s =
     (let c = c0\<lparr>invoked := invoked c0 @ [s]\<rparr> in
      case s of
        PreRenderStep \<Rightarrow> call_hook c (preRender (el c))
      | RenderStep \<Rightarrow> call_hook c (render (el c))
      | DefaultRenderStep \<Rightarrow> Returned (defaultRenderPipeline ev c)
      | PostRenderStep \<Rightarrow> call_hook c (postRender (el c)))"

text \<open>
  \<open>this.customRenderPipeline.forEach((step) => step())\<close>: the steps in order; an
  exception thrown by a step leaves the loop, and the steps after it are not called.
\<close>

fun forEach_step ::
  "'v evaluator \<Rightarrow> 'v LightWebComponent \<Rightarrow> step list \<Rightarrow> 'v LightWebComponent outcome" where
  "forEach_step ev c [] = Returned c"
| "forEach_step ev c (s # ss) =
     (case run_step ev c s of
        Returned c' \<Rightarrow> forEach_step ev c' ss
      | Threw e c' \<Rightarrow> Threw e c')"

definition not_configured :: "string \<times> exn option" where
  "not_configured =
     (''Template or styles not configured - please run configureTemplate first'', None)"

definition runRenderPipeline ::
  "'v evaluator \<Rightarrow> 'v LightWebComponent \<Rightarrow> 'v LightWebComponent outcome" where
  "runRenderPipeline ev c =
     (if \<not> renderPipelineEnabled c then Returned c
      else if falsy (rawTemplate c) \<or> falsy (rawStyles c)
      then Returned (c\<lparr>console := console c @ [not_configured]\<rparr>)
      else forEach_step ev c (customRenderPipeline c))"

definition pauseRenderPipeline :: "'v LightWebComponent \<Rightarrow> 'v LightWebComponent" where
  "pauseRenderPipeline c = c\<lparr>renderPipelineEnabled := False\<rparr>"

definition resumeRenderPipeline :: "'v LightWebComponent \<Rightarrow> 'v LightWebComponent" where
  "resumeRenderPipeline c = c\<lparr>renderPipelineEnabled := True\<rparr>"

definition setInterceptedProperty ::
  "'v evaluator \<Rightarrow> 'v LightWebComponent \<Rightarrow> name \<Rightarrow> 'v \<Rightarrow> 'v LightWebComponent outcome" where
  "setInterceptedProperty ev c n v =
     runRenderPipeline ev (c\<lparr>shadowProperties := (shadowProperties c)(n \<mapsto> v)\<rparr>)"

text \<open>
  Writing \<open>el[name] = value\<close> in strict code, which is also what \<open>Object.assign\<close>
  does for each key. An own data property takes the value if it is writable, and the write
  is a TypeError if it is not. An own accessor runs its setter, and the write is a
  TypeError if it has none; the accessor that \<open>watchForFieldChanges\<close> installed runs
  \<open>setInterceptedProperty\<close>. For a name the element has no own property for, the
  prototype chain decides: an inherited accessor runs its setter (or the write is a
  TypeError if it has none) and no own property is created; an inherited data property that
  is not writable makes the write a TypeError; otherwise a plain own data property is
  created, unless the element is no longer extensible, which is a TypeError again.
\<close>

definition call_setter ::
  "'v LightWebComponent \<Rightarrow> name \<Rightarrow> 'v \<Rightarrow> 'v LightWebComponent outcome" where
  "call_setter c n v =
     (case setter (el c) n v (host_props c) of
        Returned p \<Rightarrow> Returned (with_props c p)
      | Threw e p \<Rightarrow> Threw e (with_props c p))"

definition create_property ::
  "'v LightWebComponent \<Rightarrow> name \<Rightarrow> 'v \<Rightarrow> 'v LightWebComponent outcome" where
  "create_property c n v =
     (if extensible (state (el c))
      then Returned (with_props c ((host_props c)(n \<mapsto> Data v True True True)))
      else Threw TypeError c)"

definition host_set ::
  "'v evaluator \<Rightarrow> 'v LightWebComponent \<Rightarrow> name \<Rightarrow> 'v \<Rightarrow> 'v LightWebComponent outcome" where
  "host_set ev c n v =
     (case host_props c n of
        None \<Rightarrow>
          (case inherited (el c) n of
             None \<Rightarrow> create_property c n v
           | Some (InheritedData x w) \<Rightarrow> if w then create_property c n v else Threw TypeError c
           | Some (InheritedAccessor g s) \<Rightarrow> if s then call_setter c n v else Threw TypeError c)
      | Some (Data old w e cf) \<Rightarrow>
          if w then Returned (with_props c ((host_props c)(n \<mapsto> Data v w e cf)))
          else Threw TypeError c
      | Some (Accessor g s e cf) \<Rightarrow> if s then call_setter c n v else Threw TypeError c
      | Some Intercepted \<Rightarrow> setInterceptedProperty ev c n v)"

text \<open>
  \<open>Object.assign(this.el, properties)\<close>: the keys of the patch in their order, each
  written as above. The first write that throws ends the call; the writes before it stay.
\<close>

fun Object_assign ::
  "'v evaluator \<Rightarrow> 'v LightWebComponent \<Rightarrow> (name \<times> 'v) list \<Rightarrow> 'v LightWebComponent outcome" where
  "Object_assign ev c [] = Returned c"
| "Object_assign ev c ((k, v) # rest) =
     (case host_set ev c k v of
        Returned c' \<Rightarrow> Object_assign ev c' rest
      | Threw e c' \<Rightarrow> Threw e c')"

text \<open>
  \<open>updateProperties\<close>: the \<open>finally\<close> block resumes on both exits of
  \<open>Object.assign\<close>; the render is the statement after the \<open>try\<close>.
\<close>

definition updateProperties ::
  "'v evaluator \<Rightarrow> 'v LightWebComponent \<Rightarrow> (name \<times> 'v) list \<Rightarrow> 'v LightWebComponent outcome" where
  "updateProperties ev c properties =
     (case Object_assign ev (pauseRenderPipeline c) properties of
        Threw e c1 \<Rightarrow> Threw e (resumeRenderPipeline c1)
      | Returned c1 \<Rightarrow> runRenderPipeline ev (resumeRenderPipeline c1))"

text \<open>
  \<open>configureTemplate\<close>. A key of \<open>settings\<close> is missing, present with the value
  \<open>undefined\<close> (which the spread \<open>{...defaults, ...settings}\<close> copies over the default)
  or present with a boolean.
\<close>

datatype setting = Missing | Undefined | Given bool

record settings =
  watchForFieldChanges_opt :: setting
  immediateRender_opt :: setting

definition merged :: "setting \<Rightarrow> bool" where
  "merged s = (case s of Missing \<Rightarrow> True | Undefined \<Rightarrow> False | Given b \<Rightarrow> b)"

definition configureTemplate ::
  "'v evaluator \<Rightarrow> 'v LightWebComponent \<Rightarrow> string \<Rightarrow> string \<Rightarrow> settings option
     \<Rightarrow> 'v LightWebComponent outcome" where
  "configureTemplate ev c template styles opts =
     (let c1 = c\<lparr>rawTemplate := Some template, rawStyles := Some styles\<rparr>;
          mergedDefaults = (case opts of
                              None \<Rightarrow> \<lparr>watchForFieldChanges_opt = Missing, immediateRender_opt = Missing\<rparr>
                            | Some s \<Rightarrow> s);
          c2 = (if merged (watchForFieldChanges_opt mergedDefaults)
                then watchForFieldChanges c1 else c1)
      in if merged (immediateRender_opt mergedDefaults)
         then runRenderPipeline ev c2 else Returned c2)"

section \<open>What an operation leaves alone\<close>

text \<open>
  The wiring is what the constructor fixes and what the class of the element fixes: the
  step sequence, the hooks, the observed names, the shadow root, the prototype chain and
  the setters. The settings are the enabled flag and the stored template and styles.
\<close>

definition same_wiring :: "'v LightWebComponent \<Rightarrow> 'v LightWebComponent \<Rightarrow> bool" where
  "same_wiring c c' \<longleftrightarrow>
     customRenderPipeline c' = customRenderPipeline c
     \<and> observedAttributes (el c') = observedAttributes (el c)
     \<and> hasShadowRoot (el c') = hasShadowRoot (el c)
     \<and> preRender (el c') = preRender (el c)
     \<and> render (el c') = render (el c)
     \<and> postRender (el c') = postRender (el c)
     \<and> inherited (el c') = inherited (el c)
     \<and> setter (el c') = setter (el c)"

definition same_settings :: "'v LightWebComponent \<Rightarrow> 'v LightWebComponent \<Rightarrow> bool" where
  "same_settings c c' \<longleftrightarrow>
     renderPipelineEnabled c' = renderPipelineEnabled c
     \<and> rawTemplate c' = rawTemplate c
     \<and> rawStyles c' = rawStyles c"

text \<open>No step was called, nothing was logged and the shadow root was not written.\<close>

definition nothing_rendered :: "'v LightWebComponent \<Rightarrow> 'v LightWebComponent \<Rightarrow> bool" where
  "nothing_rendered c c' \<longleftrightarrow>
     invoked c' = invoked c \<and> console c' = console c
     \<and> shadowHTML (state (el c')) = shadowHTML (state (el c))"

text \<open>
  What one run of the step sequence \<open>ss\<close> from \<open>c\<close> does, \<open>r\<close> being how the run
  ended. When the run returned, the log of calls has grown by all of \<open>ss\<close>, in order.
  When it threw \<open>e\<close> and left \<open>c'\<close>, there is a position \<open>k\<close> in \<open>ss\<close> such that
  the steps before it have all returned, the step at position \<open>k\<close> is the one that threw
  \<open>e\<close> and left \<open>c'\<close>, and the log of calls has grown by the steps up to and
  including that one: no step after it was called.
\<close>

definition invoked_in_order ::
  "'v evaluator \<Rightarrow> step list \<Rightarrow> 'v LightWebComponent \<Rightarrow> 'v LightWebComponent outcome \<Rightarrow> bool" where
  "invoked_in_order ev ss c r =
     (case r of
        Returned c' \<Rightarrow> invoked c' = invoked c @ ss
      | Threw e c' \<Rightarrow>
          (\<exists>k<length ss.
              thrown (forEach_step ev c (take k ss)) = None
              \<and> run_step ev (state_of (forEach_step ev c (take k ss))) (ss ! k) = Threw e c'
              \<and> invoked c' = invoked c @ take (Suc k) ss))"

text \<open>
  \<open>configureTemplate\<close> in two halves: what it stores and intercepts, and whether it
  then renders.
\<close>

definition stored :: "'v LightWebComponent \<Rightarrow> string \<Rightarrow> string \<Rightarrow> settings option \<Rightarrow> 'v LightWebComponent" where
  "stored c template styles opts =
     (let c1 = c\<lparr>rawTemplate := Some template, rawStyles := Some styles\<rparr>
      in if (case opts of None \<Rightarrow> True | Some s \<Rightarrow> merged (watchForFieldChanges_opt s))
         then watchForFieldChanges c1 else c1)"

definition immediate :: "settings option \<Rightarrow> bool" where
  "immediate opts = (case opts of None \<Rightarrow> True | Some s \<Rightarrow> merged (immediateRender_opt s))"


section \<open>Example hosts\<close>

text \<open>
  The greeting widget of the repository: one observed field \<open>name\<close>, set to
  \<open>World\<close> by the class, and no hook. \<open>js_eval\<close> gives the value of the template
  literals the examples use: the greeting, a template that reads a field of an undefined
  value, and templates without a placeholder, which evaluate to themselves.
\<close>

definition no_setter :: "name \<Rightarrow> 'v setter" where
  "no_setter n v p = Returned p"

text \<open>The class of the greeting widget defines no accessor: \<open>no_setter\<close> is never reached.\<close>

definition greeting :: "string host" where
  "greeting =
     \<lparr> state = \<lparr> props = [''name'' \<mapsto> Data ''World'' True True True], shadowHTML = [],
                 extensible = True \<rparr>,
       inherited = Map.empty, setter = no_setter,
       observedAttributes = Some [''name''],
       hasShadowRoot = False,
       preRender = None, render = None, postRender = None \<rparr>"

definition js_eval :: "string evaluator" where
  "js_eval t sp st =
     (if t = ''Hello, ${this.name}!'' then
        (case (case props st ''name'' of
                 None \<Rightarrow> None
               | Some (Data v w e cf) \<Rightarrow> Some v
               | Some (Accessor g s e cf) \<Rightarrow> g
               | Some Intercepted \<Rightarrow> sp ''name'') of
           None \<Rightarrow> Inr ''Hello, undefined!''
         | Some n \<Rightarrow> Inr (''Hello, '' @ n @ ''!''))
      else if t = ''${this.missing.field}'' then Inl TypeError
      else Inr t)"

text \<open>
  The widget right after \<open>new LightWebComponent(this)\<close>; after
  \<open>configureTemplate(template, style)\<close>, as its \<open>connectedCallback\<close> leaves it; after
  its name has then been set to another value; and configured, without the immediate
  render, with the template that fails.
\<close>

definition greeting_wc :: "string LightWebComponent" where
  "greeting_wc = projr (LightWebComponent_new greeting None None)"

definition greeting_shown :: "string LightWebComponent" where
  "greeting_shown =
     state_of (configureTemplate js_eval greeting_wc ''Hello, ${this.name}!'' ''span{color:red}'' None)"

definition renamed :: "string LightWebComponent" where
  "renamed = state_of (host_set js_eval greeting_shown ''name'' ''Ada'')"

definition defer_render :: "settings option" where
  "defer_render = Some \<lparr>watchForFieldChanges_opt = Missing, immediateRender_opt = Given False\<rparr>"

definition unreadable :: "string LightWebComponent" where
  "unreadable =
     state_of (configureTemplate js_eval greeting_wc ''${this.missing.field}'' ''p{margin:0}''
       defer_render)"






text \<open>
  A widget with all three hooks, constructed with its template and styles.
\<close>

definition dial :: "string host" where
  "dial =
     \<lparr> state = \<lparr> props = [''value'' \<mapsto> Data ''7'' True True True], shadowHTML = [],
                 extensible = True \<rparr>,
       inherited = Map.empty, setter = no_setter,
       observedAttributes = Some [''value''],
       hasShadowRoot = False,
       preRender = Some (\<lambda>sp st. Returned (st\<lparr>props := (props st)(''angle'' \<mapsto> Data ''63'' True True True)\<rparr>)),
       render = Some (\<lambda>sp st. Returned (st\<lparr>shadowHTML := ''<svg></svg>''\<rparr>)),
       postRender = Some (\<lambda>sp st. Returned (st\<lparr>shadowHTML := shadowHTML st @ ''<!--drawn-->''\<rparr>)) \<rparr>"

definition dial_wc :: "string LightWebComponent" where
  "dial_wc = projr (LightWebComponent_new dial (Some ''<svg></svg>'') (Some ''svg{width:100%}''))"

text \<open>
  A widget whose \<open>preRender\<close> throws, constructed without and with template and styles.
\<close>

definition broken :: "string host" where
  "broken =
     \<lparr> state = \<lparr> props = Map.empty, shadowHTML = [], extensible = True \<rparr>,
       inherited = Map.empty, setter = no_setter,
       observedAttributes = None,
       hasShadowRoot = False,
       preRender = Some (\<lambda>sp st. Threw (HostError ''no data'') st),
       render = None,
       postRender = Some (\<lambda>sp st. Returned st) \<rparr>"

definition broken_new :: "string LightWebComponent" where
  "broken_new = projr (LightWebComponent_new broken None None)"


text \<open>
  A chart in the manner of the repository's donut chart: no \<open>render\<close> hook, a
  \<open>preRender\<close> that computes a field and a \<open>postRender\<close> that draws into what the
  default step rendered.
\<close>

definition chart :: "string host" where
  "chart =
     \<lparr> state = \<lparr> props = [''width'' \<mapsto> Data ''300'' True True True], shadowHTML = [],
                 extensible = True \<rparr>,
       inherited = Map.empty, setter = no_setter,
       observedAttributes = Some [''width'', ''height''],
       hasShadowRoot = False,
       preRender = Some (\<lambda>sp st. Returned (st\<lparr>props := (props st)(''totalAmount'' \<mapsto> Data ''0'' True True True)\<rparr>)),
       render = None,
       postRender = Some (\<lambda>sp st. Returned (st\<lparr>shadowHTML := shadowHTML st @ ''<!--drawn-->''\<rparr>)) \<rparr>"

definition chart_new :: "string LightWebComponent" where
  "chart_new = projr (LightWebComponent_new chart None None)"





text \<open>
  A widget with an observed field \<open>total\<close> and a \<open>preRender\<close> that changes
  nothing of the element.
\<close>

definition tally :: "string host" where
  "tally =
     \<lparr> state = \<lparr> props = [''total'' \<mapsto> Data ''0'' True True True], shadowHTML = [],
                 extensible = True \<rparr>,
       inherited = Map.empty, setter = no_setter,
       observedAttributes = Some [''total''],
       hasShadowRoot = False,
       preRender = Some (\<lambda>sp st. Returned st),
       render = None, postRender = None \<rparr>"

definition tally_wc :: "string LightWebComponent" where
  "tally_wc = projr (LightWebComponent_new tally None None)"

definition tally_shown :: "string LightWebComponent" where
  "tally_shown = state_of (configureTemplate js_eval tally_wc ''<p>sum</p>'' ''p{margin:0}'' None)"

text \<open>
  The state of that widget in which a run of the pipeline has called \<open>preRender\<close> and
  \<open>preRender\<close> has not returned yet.
\<close>

definition tally_in_preRender :: "string LightWebComponent" where
  "tally_in_preRender = tally_shown\<lparr>invoked := invoked tally_shown @ [PreRenderStep]\<rparr>"


section \<open>Outcomes\<close>



section \<open>Interception, one name at a time\<close>

lemmas unfold_host = host_props_def with_props_def with_state_def

lemma intercept_skip: "\<not> interceptable (host_props c a) \<Longrightarrow> intercept c a = c"
  by (simp add: intercept_def)

lemma interceptable_Data:
  "interceptable d \<Longrightarrow> \<exists>v. d = Some (Data v True True True)"
  by (auto simp: interceptable_def split: option.splits property.splits)


lemma intercept_other:
  "a \<noteq> n \<Longrightarrow> host_props (intercept c a) n = host_props c n
     \<and> shadowProperties (intercept c a) n = shadowProperties c n"
  by (simp add: intercept_def unfold_host)

lemma intercept_self:
  "interceptable (host_props c n) \<Longrightarrow>
     host_props (intercept c n) n = Some Intercepted
     \<and> shadowProperties (intercept c n) n = host_get c n"
  by (simp add: intercept_def unfold_host)

lemma intercept_frame:
  "renderPipelineEnabled (intercept c a) = renderPipelineEnabled c
   \<and> rawTemplate (intercept c a) = rawTemplate c
   \<and> rawStyles (intercept c a) = rawStyles c
   \<and> customRenderPipeline (intercept c a) = customRenderPipeline c
   \<and> console (intercept c a) = console c
   \<and> invoked (intercept c a) = invoked c
   \<and> shadowHTML (state (el (intercept c a))) = shadowHTML (state (el c))
   \<and> observedAttributes (el (intercept c a)) = observedAttributes (el c)
   \<and> hasShadowRoot (el (intercept c a)) = hasShadowRoot (el c)
   \<and> preRender (el (intercept c a)) = preRender (el c)
   \<and> render (el (intercept c a)) = render (el c)
   \<and> postRender (el (intercept c a)) = postRender (el c)
   \<and> inherited (el (intercept c a)) = inherited (el c)
   \<and> setter (el (intercept c a)) = setter (el c)"
  by (simp add: intercept_def unfold_host)

lemma foldl_intercept_skipped:
  "\<not> interceptable (host_props c n) \<Longrightarrow>
     host_props (foldl intercept c attrs) n = host_props c n
     \<and> shadowProperties (foldl intercept c attrs) n = shadowProperties c n"
proof (induction attrs arbitrary: c)
  case Nil
  then show ?case by simp
next
  case (Cons a attrs)
  show ?case
  proof (cases "a = n")
    case True
    with Cons.prems have "intercept c a = c" by (simp add: intercept_skip)
    with Cons show ?thesis by simp
  next
    case False
    then have same: "host_props (intercept c a) n = host_props c n"
      "shadowProperties (intercept c a) n = shadowProperties c n"
      by (simp_all add: intercept_other)
    with Cons.prems have "\<not> interceptable (host_props (intercept c a) n)" by simp
    from Cons.IH [OF this] same show ?thesis by simp
  qed
qed

lemma foldl_intercept_taken:
  "n \<in> set attrs \<Longrightarrow> interceptable (host_props c n) \<Longrightarrow>
     host_props (foldl intercept c attrs) n = Some Intercepted
     \<and> shadowProperties (foldl intercept c attrs) n = host_get c n"
proof (induction attrs arbitrary: c)
  case Nil
  then show ?case by simp
next
  case (Cons a attrs)
  show ?case
  proof (cases "a = n")
    case True
    from Cons.prems(2) have now: "host_props (intercept c n) n = Some Intercepted"
      "shadowProperties (intercept c n) n = host_get c n"
      by (simp_all add: intercept_self)
    then have "\<not> interceptable (host_props (intercept c n) n)"
      by (simp add: interceptable_def)
    from foldl_intercept_skipped [OF this, of attrs] now True show ?thesis by simp
  next
    case False
    then have same: "host_props (intercept c a) n = host_props c n"
      "shadowProperties (intercept c a) n = shadowProperties c n"
      by (simp_all add: intercept_other)
    from False Cons.prems(1) have mem: "n \<in> set attrs" by simp
    from same Cons.prems(2) have "interceptable (host_props (intercept c a) n)" by simp
    from Cons.IH [OF mem this] same interceptable_Data [OF Cons.prems(2)]
    show ?thesis by (auto simp: host_get_def own_value_def)
  qed
qed

lemma foldl_intercept_frame:
  "renderPipelineEnabled (foldl intercept c attrs) = renderPipelineEnabled c
   \<and> rawTemplate (foldl intercept c attrs) = rawTemplate c
   \<and> rawStyles (foldl intercept c attrs) = rawStyles c
   \<and> customRenderPipeline (foldl intercept c attrs) = customRenderPipeline c
   \<and> console (foldl intercept c attrs) = console c
   \<and> invoked (foldl intercept c attrs) = invoked c
   \<and> shadowHTML (state (el (foldl intercept c attrs))) = shadowHTML (state (el c))
   \<and> observedAttributes (el (foldl intercept c attrs)) = observedAttributes (el c)
   \<and> hasShadowRoot (el (foldl intercept c attrs)) = hasShadowRoot (el c)
   \<and> preRender (el (foldl intercept c attrs)) = preRender (el c)
   \<and> render (el (foldl intercept c attrs)) = render (el c)
   \<and> postRender (el (foldl intercept c attrs)) = postRender (el c)
   \<and> inherited (el (foldl intercept c attrs)) = inherited (el c)
   \<and> setter (el (foldl intercept c attrs)) = setter (el c)"
proof (induction attrs arbitrary: c)
  case Nil
  then show ?case by simp
next
  case (Cons a attrs)
  from Cons.IH [of "intercept c a"] intercept_frame [of c a] show ?case by simp
qed

lemma foldl_intercept_none:
  "\<forall>n \<in> set attrs. \<not> interceptable (host_props c n) \<Longrightarrow> foldl intercept c attrs = c"
  by (induction attrs arbitrary: c) (simp_all add: intercept_skip)

lemma foldl_intercept_done:
  "n \<in> set attrs \<Longrightarrow> \<not> interceptable (host_props (foldl intercept c attrs) n)"
proof (cases "interceptable (host_props c n)")
  case True
  assume "n \<in> set attrs"
  from foldl_intercept_taken [OF this True] show ?thesis by (simp add: interceptable_def)
next
  case False
  from foldl_intercept_skipped [OF this, of attrs] False show ?thesis by simp
qed





lemma watch_idem: "watchForFieldChanges (watchForFieldChanges c) = watchForFieldChanges c"
proof (cases "observedAttributes (el c)")
  case None
  then show ?thesis by (simp add: watchForFieldChanges_def)
next
  case (Some attrs)
  let ?c' = "foldl intercept c attrs"
  have obs: "observedAttributes (el ?c') = Some attrs"
    using foldl_intercept_frame [of c attrs] Some by simp
  have "\<forall>n \<in> set attrs. \<not> interceptable (host_props ?c' n)"
    by (simp add: foldl_intercept_done)
  then have "foldl intercept ?c' attrs = ?c'" by (rule foldl_intercept_none)
  with Some obs show ?thesis by (simp add: watchForFieldChanges_def)
qed


lemma watchForFieldChanges_frame:
  "same_wiring c (watchForFieldChanges c) \<and> same_settings c (watchForFieldChanges c)
   \<and> nothing_rendered c (watchForFieldChanges c)"
  using foldl_intercept_frame [of c]
  by (simp add: watchForFieldChanges_def same_wiring_def same_settings_def nothing_rendered_def
        split: option.splits)

section \<open>The step sequence\<close>

lemma same_wiring_refl: "same_wiring c c"
  by (simp add: same_wiring_def)

lemma same_wiring_trans: "same_wiring a b \<Longrightarrow> same_wiring b c \<Longrightarrow> same_wiring a c"
  by (simp add: same_wiring_def)

lemma same_settings_refl: "same_settings c c"
  by (simp add: same_settings_def)

lemma same_settings_trans: "same_settings a b \<Longrightarrow> same_settings b c \<Longrightarrow> same_settings a c"
  by (simp add: same_settings_def)


lemma call_hook_frame:
  "same_wiring c (state_of (call_hook c h))
   \<and> same_settings c (state_of (call_hook c h))
   \<and> shadowProperties (state_of (call_hook c h)) = shadowProperties c
   \<and> console (state_of (call_hook c h)) = console c
   \<and> invoked (state_of (call_hook c h)) = invoked c"
  by (simp add: call_hook_def same_wiring_def same_settings_def with_state_def
           split: option.splits outcome.splits)

lemma defaultRenderPipeline_frame:
  "same_wiring c (defaultRenderPipeline ev c)
   \<and> same_settings c (defaultRenderPipeline ev c)
   \<and> shadowProperties (defaultRenderPipeline ev c) = shadowProperties c
   \<and> invoked (defaultRenderPipeline ev c) = invoked c"
  by (simp add: defaultRenderPipeline_def evaluateTemplate_def renderTemplate_def
        evaluateStyles_def same_wiring_def same_settings_def with_state_def
           split: sum.splits)

lemma run_step_frame:
  "same_wiring c (state_of (run_step ev c s))
   \<and> same_settings c (state_of (run_step ev c s))
   \<and> shadowProperties (state_of (run_step ev c s)) = shadowProperties c
   \<and> invoked (state_of (run_step ev c s)) = invoked c @ [s]"
proof -
  let ?c = "c\<lparr>invoked := invoked c @ [s]\<rparr>"
  have base: "same_wiring c ?c" "same_settings c ?c"
    by (simp_all add: same_wiring_def same_settings_def)
  show ?thesis
  proof (cases s)
    case PreRenderStep
    with call_hook_frame [of ?c "preRender (el c)"] base show ?thesis
      by (simp add: run_step_def same_wiring_def same_settings_def)
  next
    case RenderStep
    with call_hook_frame [of ?c "render (el c)"] base show ?thesis
      by (simp add: run_step_def same_wiring_def same_settings_def)
  next
    case DefaultRenderStep
    with defaultRenderPipeline_frame [of ?c ev] base show ?thesis
      by (simp add: run_step_def same_wiring_def same_settings_def)
  next
    case PostRenderStep
    with call_hook_frame [of ?c "postRender (el c)"] base show ?thesis
      by (simp add: run_step_def same_wiring_def same_settings_def)
  qed
qed

lemma forEach_step_frame:
  "same_wiring c (state_of (forEach_step ev c ss))
   \<and> same_settings c (state_of (forEach_step ev c ss))
   \<and> shadowProperties (state_of (forEach_step ev c ss)) = shadowProperties c"
proof (induction ss arbitrary: c)
  case Nil
  show ?case by (simp add: same_wiring_refl same_settings_refl)
next
  case (Cons s ss)
  show ?case
  proof (cases "run_step ev c s")
    case (Returned c1)
    with run_step_frame [of c ev s]
    have one: "same_wiring c c1" "same_settings c c1" "shadowProperties c1 = shadowProperties c"
      by simp_all
    from Cons.IH [of c1] one Returned show ?thesis
      by (auto intro: same_wiring_trans same_settings_trans)
  next
    case (Threw e c1)
    with run_step_frame [of c ev s] show ?thesis by simp
  qed
qed

lemma forEach_step_invoked: "invoked_in_order ev ss c (forEach_step ev c ss)"
proof (induction ss arbitrary: c)
  case Nil
  show ?case by (simp add: invoked_in_order_def)
next
  case (Cons s ss)
  show ?case
  proof (cases "run_step ev c s")
    case (Returned c1)
    note first = Returned
    with run_step_frame [of c ev s] have one: "invoked c1 = invoked c @ [s]" by simp
    show ?thesis
    proof (cases "forEach_step ev c1 ss")
      case (Returned c2)
      with Cons.IH [of c1] one first show ?thesis
        by (simp add: invoked_in_order_def)
    next
      case (Threw e c2)
      with Cons.IH [of c1] obtain k where k: "k < length ss"
        and before: "thrown (forEach_step ev c1 (take k ss)) = None"
        and at: "run_step ev (state_of (forEach_step ev c1 (take k ss))) (ss ! k) = Threw e c2"
        and log: "invoked c2 = invoked c1 @ take (Suc k) ss"
        by (auto simp: invoked_in_order_def)
      from first have shift: "forEach_step ev c (take (Suc k) (s # ss)) = forEach_step ev c1 (take k ss)"
        by simp
      have "Suc k < length (s # ss)" using k by simp
      moreover have "thrown (forEach_step ev c (take (Suc k) (s # ss))) = None"
        using before shift by simp
      moreover have "run_step ev (state_of (forEach_step ev c (take (Suc k) (s # ss)))) ((s # ss) ! Suc k)
                       = Threw e c2"
        using at shift by simp
      moreover have "invoked c2 = invoked c @ take (Suc (Suc k)) (s # ss)"
        using log one by simp
      ultimately have "\<exists>j<length (s # ss).
              thrown (forEach_step ev c (take j (s # ss))) = None
              \<and> run_step ev (state_of (forEach_step ev c (take j (s # ss)))) ((s # ss) ! j) = Threw e c2
              \<and> invoked c2 = invoked c @ take (Suc j) (s # ss)"
        by blast
      with Threw first show ?thesis by (simp add: invoked_in_order_def)
    qed
  next
    case (Threw e c1)
    with run_step_frame [of c ev s] have log: "invoked c1 = invoked c @ take (Suc 0) (s # ss)" by simp
    have "0 < length (s # ss)" by simp
    moreover have "thrown (forEach_step ev c (take 0 (s # ss))) = None" by simp
    moreover have "run_step ev (state_of (forEach_step ev c (take 0 (s # ss)))) ((s # ss) ! 0) = Threw e c1"
      using Threw by simp
    ultimately have "\<exists>j<length (s # ss).
              thrown (forEach_step ev c (take j (s # ss))) = None
              \<and> run_step ev (state_of (forEach_step ev c (take j (s # ss)))) ((s # ss) ! j) = Threw e c1
              \<and> invoked c1 = invoked c @ take (Suc j) (s # ss)"
      using log by blast
    with Threw show ?thesis by (simp add: invoked_in_order_def)
  qed
qed

lemma invoked_in_order_Returned:
  "invoked_in_order ev ss c r \<Longrightarrow> thrown r = None \<Longrightarrow> invoked (state_of r) = invoked c @ ss"
  by (cases r) (simp_all add: invoked_in_order_def)

lemma runRenderPipeline_frame:
  "same_wiring c (state_of (runRenderPipeline ev c))
   \<and> same_settings c (state_of (runRenderPipeline ev c))
   \<and> shadowProperties (state_of (runRenderPipeline ev c)) = shadowProperties c"
  using forEach_step_frame [of c ev "customRenderPipeline c"]
  by (simp add: runRenderPipeline_def same_wiring_def same_settings_def)

lemma runRenderPipeline_paused:
  "\<not> renderPipelineEnabled c \<Longrightarrow> runRenderPipeline ev c = Returned c"
  by (simp add: runRenderPipeline_def)

lemma runRenderPipeline_missing:
  "renderPipelineEnabled c \<Longrightarrow> falsy (rawTemplate c) \<or> falsy (rawStyles c) \<Longrightarrow>
     runRenderPipeline ev c = Returned (c\<lparr>console := console c @ [not_configured]\<rparr>)"
  by (simp add: runRenderPipeline_def)

lemma runRenderPipeline_steps:
  "renderPipelineEnabled c \<Longrightarrow> \<not> falsy (rawTemplate c) \<Longrightarrow> \<not> falsy (rawStyles c) \<Longrightarrow>
     runRenderPipeline ev c = forEach_step ev c (customRenderPipeline c)"
  by (simp add: runRenderPipeline_def)

lemma default_step_markup:
  assumes "hasShadowRoot (el c)" "rawTemplate c = Some t" "rawStyles c = Some s" "s \<noteq> []"
  shows "run_step ev c DefaultRenderStep
           = Returned (defaultRenderPipeline ev (c\<lparr>invoked := invoked c @ [DefaultRenderStep]\<rparr>))
         \<and> shadowHTML (state (el (defaultRenderPipeline ev (c\<lparr>invoked := invoked c @ [DefaultRenderStep]\<rparr>))))
             = ''<style>'' @ s @ ''</style>''
               @ (case ev t (shadowProperties c) (state (el c)) of Inl e \<Rightarrow> [] | Inr x \<Rightarrow> x)"
  using assms
  by (simp add: run_step_def defaultRenderPipeline_def evaluateTemplate_def evaluateStyles_def
        renderTemplate_def with_state_def or_null_def interpolate_def split: sum.splits)

section \<open>What the constructor builds\<close>


lemma build_pipeline_default:
  "render h = None \<Longrightarrow>
     build_pipeline h =
       (case preRender h of None \<Rightarrow> [] | Some f \<Rightarrow> [PreRenderStep])
       @ DefaultRenderStep # (case postRender h of None \<Rightarrow> [] | Some g \<Rightarrow> [PostRenderStep])"
  by (simp add: build_pipeline_def)


lemma LightWebComponent_new_fields:
  "LightWebComponent_new h t s = Inr c \<Longrightarrow>
     \<not> hasShadowRoot h \<and> hasShadowRoot (el c) \<and> shadowHTML (state (el c)) = []
     \<and> customRenderPipeline c = build_pipeline (el c)
     \<and> renderPipelineEnabled c
     \<and> rawTemplate c = or_null t \<and> rawStyles c = or_null s
     \<and> shadowProperties c = Map.empty
     \<and> host_props c = props (state h)
     \<and> console c = [] \<and> invoked c = []"
  by (auto simp: LightWebComponent_new_def build_pipeline_def host_props_def split: if_splits)

lemma same_wiring_built:
  "same_wiring c c' \<Longrightarrow> customRenderPipeline c = build_pipeline (el c) \<Longrightarrow>
     customRenderPipeline c' = build_pipeline (el c')"
  by (simp add: same_wiring_def build_pipeline_def)

section \<open>Runs that return\<close>




section \<open>Writes that do not render\<close>






section \<open>Configuring\<close>

lemma configureTemplate_stored:
  "configureTemplate ev c t s opts =
     (if immediate opts then runRenderPipeline ev (stored c t s opts)
      else Returned (stored c t s opts))"
  by (cases opts) (simp_all add: configureTemplate_def stored_def immediate_def merged_def Let_def)

lemma stored_frame:
  "same_wiring c (stored c t s opts) \<and> nothing_rendered c (stored c t s opts)
   \<and> renderPipelineEnabled (stored c t s opts) = renderPipelineEnabled c
   \<and> rawTemplate (stored c t s opts) = Some t
   \<and> rawStyles (stored c t s opts) = Some s"
  using watchForFieldChanges_frame [of "c\<lparr>rawTemplate := Some t, rawStyles := Some s\<rparr>"]
  by (simp add: stored_def same_wiring_def same_settings_def nothing_rendered_def Let_def)

section \<open>The wiring stays\<close>




lemma configureTemplate_wiring: "same_wiring c (state_of (configureTemplate ev c t s opts))"
  using stored_frame [of c t s opts] runRenderPipeline_frame [of "stored c t s opts" ev]
  by (auto simp: configureTemplate_stored intro: same_wiring_trans)

lemma configureTemplate_frame:
  "same_wiring c (state_of (configureTemplate ev c t s opts))
   \<and> renderPipelineEnabled (state_of (configureTemplate ev c t s opts)) = renderPipelineEnabled c
   \<and> rawTemplate (state_of (configureTemplate ev c t s opts)) = Some t
   \<and> rawStyles (state_of (configureTemplate ev c t s opts)) = Some s"
  using stored_frame [of c t s opts] runRenderPipeline_frame [of "stored c t s opts" ev]
    configureTemplate_wiring [of c ev t s opts]
  by (auto simp: configureTemplate_stored same_settings_def)

section \<open>The examples, evaluated\<close>

lemmas model_defs =
  LightWebComponent_new_def build_pipeline_def or_null_def falsy_def interpolate_def
  host_props_def with_state_def with_props_def getInterceptedProperty_def own_value_def
  host_get_def
  interceptable_def intercept_def watchForFieldChanges_def evaluateTemplate_def
  evaluateStyles_def renderTemplate_def defaultRenderPipeline_def call_hook_def run_step_def
  not_configured_def runRenderPipeline_def pauseRenderPipeline_def resumeRenderPipeline_def
  setInterceptedProperty_def call_setter_def create_property_def host_set_def
  updateProperties_def merged_def configureTemplate_def no_setter_def

lemmas example_defs = greeting_def js_eval_def greeting_wc_def greeting_shown_def

lemma greeting_wc_new: "LightWebComponent_new greeting None None = Inr greeting_wc"
  by (simp add: model_defs example_defs)

lemma greeting_shown_html:
  "shadowHTML (state (el greeting_shown)) = ''<style>span{color:red}</style>Hello, World!''
   \<and> host_props greeting_shown ''name'' = Some Intercepted
   \<and> shadowProperties greeting_shown ''name'' = Some ''World''
   \<and> invoked greeting_shown = [DefaultRenderStep]
   \<and> console greeting_shown = []
   \<and> renderPipelineEnabled greeting_shown"
  by (simp add: model_defs example_defs Let_def)



lemma greeting_ada:
  "thrown (host_set js_eval greeting_shown ''name'' ''Ada'') = None
   \<and> shadowHTML (state (el (state_of (host_set js_eval greeting_shown ''name'' ''Ada''))))
       = ''<style>span{color:red}</style>Hello, Ada!''"
  by (simp add: model_defs example_defs Let_def)

lemma greeting_wc_fields:
  "renderPipelineEnabled greeting_wc \<and> rawTemplate greeting_wc = None
   \<and> rawStyles greeting_wc = None \<and> customRenderPipeline greeting_wc = [DefaultRenderStep]
   \<and> invoked greeting_wc = [] \<and> console greeting_wc = []
   \<and> shadowHTML (state (el greeting_wc)) = []
   \<and> host_props greeting_wc ''name'' = Some (Data ''World'' True True True)"
  by (simp add: model_defs example_defs)

lemma greeting_shown_salutation: "host_props greeting_shown ''salutation'' = None"
  by (simp add: model_defs example_defs Let_def)





lemma dial_wc_run:
  "thrown (runRenderPipeline js_eval dial_wc) = None
   \<and> shadowHTML (state (el (state_of (runRenderPipeline js_eval dial_wc))))
       = ''<svg></svg><!--drawn-->''"
  by (simp add: model_defs dial_def dial_wc_def)




lemma renamed_fields:
  "host_props renamed ''name'' = Some Intercepted
   \<and> shadowProperties renamed ''name'' = Some ''Ada''"
  by (simp add: model_defs example_defs renamed_def Let_def)

lemma unreadable_fields:
  "js_eval (interpolate (rawTemplate unreadable)) (shadowProperties unreadable)
       (state (el unreadable)) = Inl TypeError
   \<and> hasShadowRoot (el unreadable)
   \<and> rawStyles unreadable = Some ''p{margin:0}''
   \<and> console unreadable = []
   \<and> renderPipelineEnabled unreadable
   \<and> \<not> falsy (rawTemplate unreadable) \<and> \<not> falsy (rawStyles unreadable)
   \<and> customRenderPipeline unreadable = [DefaultRenderStep]"
  by (simp add: model_defs example_defs unreadable_def defer_render_def Let_def)


lemma greeting_deferred:
  "thrown (runRenderPipeline js_eval
      (state_of (configureTemplate js_eval (state_of (runRenderPipeline js_eval greeting_wc))
         ''Hello, ${this.name}!'' ''span{color:red}'' defer_render))) = None
   \<and> invoked (state_of (configureTemplate js_eval (state_of (runRenderPipeline js_eval greeting_wc))
         ''Hello, ${this.name}!'' ''span{color:red}'' defer_render)) = []
   \<and> shadowHTML (state (el (state_of (runRenderPipeline js_eval
      (state_of (configureTemplate js_eval (state_of (runRenderPipeline js_eval greeting_wc))
         ''Hello, ${this.name}!'' ''span{color:red}'' defer_render))))))
       = ''<style>span{color:red}</style>Hello, World!''"
  by (simp add: model_defs example_defs defer_render_def Let_def)

section \<open>A write from inside a step\<close>

text \<open>
  What the hooks of the model leave out. Suppose \<open>preRender\<close> of the tally widget
  writes its intercepted field, \<open>this.total = '1'\<close>, unless it is in the middle of
  doing so already. The write is made after the run has called \<open>preRender\<close> and
  before it calls the next step, and it goes through \<open>setInterceptedProperty\<close>: the
  whole step sequence runs, \<open>preRender\<close> included (which this time writes nothing),
  before the write returns, and the outer run then goes on with the default render step.
  The one run has then called \<open>preRender\<close> twice and the default render step twice.
  Without the guard in \<open>preRender\<close> the nesting would not end. This is why what
  follows counts the steps of a run only for hosts whose hooks do not call back.
\<close>

lemma write_inside_a_step_runs_the_sequence_again:
  "customRenderPipeline tally_shown = [PreRenderStep, DefaultRenderStep]
   \<and> renderPipelineEnabled tally_shown
   \<and> host_props tally_shown ''total'' = Some Intercepted
   \<and> invoked tally_shown = [PreRenderStep, DefaultRenderStep]
   \<and> invoked tally_in_preRender = invoked tally_shown @ [PreRenderStep]
   \<and> thrown (host_set js_eval tally_in_preRender ''total'' ''1'') = None
   \<and> invoked (state_of (host_set js_eval tally_in_preRender ''total'' ''1''))
       = invoked tally_shown @ [PreRenderStep, PreRenderStep, DefaultRenderStep]
   \<and> invoked (state_of (forEach_step js_eval
         (state_of (host_set js_eval tally_in_preRender ''total'' ''1'')) [DefaultRenderStep]))
       = invoked tally_shown
         @ [PreRenderStep, PreRenderStep, DefaultRenderStep, DefaultRenderStep]"
  by (simp add: model_defs js_eval_def tally_def tally_wc_def tally_shown_def
        tally_in_preRender_def Let_def)

section \<open>Batched updates\<close>




section \<open>A patch that throws\<close>




section \<open>The step sequence of a host\<close>




section \<open>Which names are intercepted\<close>




section \<open>Rendering without configuration\<close>

text \<open>
  Claim C5, amended. A call to \<open>runRenderPipeline\<close> made while the stored template or
  the stored styles is missing (null or the empty string) returns without throwing; while
  the pipeline is enabled it logs the missing configuration and changes nothing else (no
  step, no write to the shadow root); while the pipeline is paused it changes nothing at
  all. The failure is recoverable: once \<open>configureTemplate\<close> has stored a non-empty
  template and non-empty styles, \<open>runRenderPipeline\<close> runs the step sequence.
\<close>

theorem missing_configuration_is_logged:
  assumes missing: "falsy (rawTemplate c) \<or> falsy (rawStyles c)"
  shows "runRenderPipeline ev c =
           Returned (if renderPipelineEnabled c
                     then c\<lparr>console := console c @ [not_configured]\<rparr> else c)
         \<and> (renderPipelineEnabled c \<and> t \<noteq> [] \<and> s \<noteq> [] \<longrightarrow>
              (let c1 = state_of (runRenderPipeline ev c);
                   c2 = state_of (configureTemplate ev c1 t s opts)
               in runRenderPipeline ev c2 = forEach_step ev c2 (customRenderPipeline c)
                  \<and> invoked_in_order ev (customRenderPipeline c) c2 (runRenderPipeline ev c2)))"
proof -
  have first: "runRenderPipeline ev c =
           Returned (if renderPipelineEnabled c
                     then c\<lparr>console := console c @ [not_configured]\<rparr> else c)"
    using missing by (simp add: runRenderPipeline_def)
  have later: "runRenderPipeline ev c2 = forEach_step ev c2 (customRenderPipeline c)
                  \<and> invoked_in_order ev (customRenderPipeline c) c2 (runRenderPipeline ev c2)"
    if on: "renderPipelineEnabled c" and ne: "t \<noteq> []" "s \<noteq> []"
      and c1: "c1 = state_of (runRenderPipeline ev c)"
      and c2: "c2 = state_of (configureTemplate ev c1 t s opts)"
    for c1 c2
  proof -
    from first on c1 have c1': "c1 = c\<lparr>console := console c @ [not_configured]\<rparr>" by simp
    from configureTemplate_frame [of c1 ev t s opts] c1' c2 on
    have f: "customRenderPipeline c2 = customRenderPipeline c" "renderPipelineEnabled c2"
      "rawTemplate c2 = Some t" "rawStyles c2 = Some s"
      by (simp_all add: same_wiring_def)
    with ne have run: "runRenderPipeline ev c2 = forEach_step ev c2 (customRenderPipeline c)"
      by (simp add: runRenderPipeline_def falsy_def)
    with forEach_step_invoked [of ev "customRenderPipeline c" c2] show ?thesis by simp
  qed
  show ?thesis
  proof (intro conjI)
    show "runRenderPipeline ev c =
           Returned (if renderPipelineEnabled c
                     then c\<lparr>console := console c @ [not_configured]\<rparr> else c)"
      by (rule first)
    show "renderPipelineEnabled c \<and> t \<noteq> [] \<and> s \<noteq> [] \<longrightarrow>
              (let c1 = state_of (runRenderPipeline ev c);
                   c2 = state_of (configureTemplate ev c1 t s opts)
               in runRenderPipeline ev c2 = forEach_step ev c2 (customRenderPipeline c)
                  \<and> invoked_in_order ev (customRenderPipeline c) c2 (runRenderPipeline ev c2))"
      unfolding Let_def
    proof (rule impI, elim conjE)
      assume "renderPipelineEnabled c" "t \<noteq> []" "s \<noteq> []"
      then show "runRenderPipeline ev (state_of (configureTemplate ev (state_of (runRenderPipeline ev c)) t s opts))
          = forEach_step ev (state_of (configureTemplate ev (state_of (runRenderPipeline ev c)) t s opts))
              (customRenderPipeline c)
        \<and> invoked_in_order ev (customRenderPipeline c)
            (state_of (configureTemplate ev (state_of (runRenderPipeline ev c)) t s opts))
            (runRenderPipeline ev (state_of (configureTemplate ev (state_of (runRenderPipeline ev c)) t s opts)))"
        by (rule later [OF _ _ _ refl refl])
    qed
  qed
qed

theorem missing_configuration_is_logged_witness:
  "falsy (rawTemplate greeting_wc) \<and> renderPipelineEnabled greeting_wc
   \<and> ''Hello, ${this.name}!'' \<noteq> [] \<and> ''span{color:red}'' \<noteq> []
   \<and> runRenderPipeline js_eval greeting_wc
       = Returned (greeting_wc\<lparr>console := [not_configured]\<rparr>)
   \<and> thrown (runRenderPipeline js_eval
        (state_of (configureTemplate js_eval (state_of (runRenderPipeline js_eval greeting_wc))
           ''Hello, ${this.name}!'' ''span{color:red}'' defer_render))) = None
   \<and> invoked (state_of (runRenderPipeline js_eval
        (state_of (configureTemplate js_eval (state_of (runRenderPipeline js_eval greeting_wc))
           ''Hello, ${this.name}!'' ''span{color:red}'' defer_render)))) = [DefaultRenderStep]
   \<and> shadowHTML (state (el (state_of (runRenderPipeline js_eval
        (state_of (configureTemplate js_eval (state_of (runRenderPipeline js_eval greeting_wc))
           ''Hello, ${this.name}!'' ''span{color:red}'' defer_render))))))
       = ''<style>span{color:red}</style>Hello, World!''"
proof -
  let ?c2 = "state_of (configureTemplate js_eval (state_of (runRenderPipeline js_eval greeting_wc))
           ''Hello, ${this.name}!'' ''span{color:red}'' defer_render)"
  have missing: "falsy (rawTemplate greeting_wc) \<or> falsy (rawStyles greeting_wc)"
    and f: "falsy (rawTemplate greeting_wc)"
    using greeting_wc_fields by (simp_all add: falsy_def)
  have on: "renderPipelineEnabled greeting_wc" using greeting_wc_fields by simp
  have ready: "renderPipelineEnabled greeting_wc \<and> ''Hello, ${this.name}!'' \<noteq> []
      \<and> ''span{color:red}'' \<noteq> []"
    using on by simp
  note inst = missing_configuration_is_logged [OF missing, of js_eval
      "''Hello, ${this.name}!''" "''span{color:red}''" defer_render]
  from inst [THEN conjunct1] on greeting_wc_fields
  have one: "runRenderPipeline js_eval greeting_wc
       = Returned (greeting_wc\<lparr>console := [not_configured]\<rparr>)"
    by simp
  from inst [THEN conjunct2, rule_format, OF ready]
  have "invoked_in_order js_eval (customRenderPipeline greeting_wc) ?c2 (runRenderPipeline js_eval ?c2)"
    unfolding Let_def by (rule conjunct2)
  moreover have returned: "thrown (runRenderPipeline js_eval ?c2) = None"
    using greeting_deferred by simp
  ultimately have "invoked (state_of (runRenderPipeline js_eval ?c2))
      = invoked ?c2 @ customRenderPipeline greeting_wc"
    by (rule invoked_in_order_Returned)
  with greeting_deferred greeting_wc_fields
  have two: "invoked (state_of (runRenderPipeline js_eval ?c2)) = [DefaultRenderStep]"
    by simp
  from f on one returned two greeting_deferred show ?thesis by simp
qed

text \<open>
  The claim as stated has every such call log an error. A paused component without
  template logs nothing.
\<close>

theorem paused_run_logs_nothing:
  "LightWebComponent_new greeting None None = Inr greeting_wc
   \<and> rawTemplate (pauseRenderPipeline greeting_wc) = None
   \<and> rawStyles (pauseRenderPipeline greeting_wc) = None
   \<and> thrown (runRenderPipeline js_eval (pauseRenderPipeline greeting_wc)) = None
   \<and> console (pauseRenderPipeline greeting_wc) = []
   \<and> console (state_of (runRenderPipeline js_eval (pauseRenderPipeline greeting_wc))) = []"
  using greeting_wc_fields greeting_wc_new
  by (simp add: pauseRenderPipeline_def runRenderPipeline_def)

section \<open>What the default render step writes\<close>

text \<open>
  Claim C6, amended. Take a host with no \<open>render\<close> hook whose pipeline is enabled,
  after \<open>configureTemplate\<close> with a non-empty template and non-empty styles, and run
  the pipeline. If \<open>preRender\<close>, when the host has it, returns, then the default render
  step replaces the content of the shadow root by exactly
  \<open><style>\<close> styles \<open></style>\<close> followed by the evaluated template: the template
  evaluated against the host as \<open>preRender\<close> left it, and the empty string when the
  evaluation throws. The run goes on from there with \<open>postRender\<close>, when the host has
  it; when it has not, that markup is the content of the shadow root at the end of the run.
\<close>

theorem default_step_writes_the_markup:
  assumes root: "hasShadowRoot (el c0)" and plain: "render (el c0) = None"
    and built: "customRenderPipeline c0 = build_pipeline (el c0)"
    and on: "renderPipelineEnabled c0"
    and ne: "template \<noteq> []" "styles \<noteq> []"
    and conf: "c = state_of (configureTemplate ev c0 template styles opts)"
    and pre: "(case preRender (el c) of
                 None \<Rightarrow> Returned (state (el c))
               | Some f \<Rightarrow> f (shadowProperties c) (state (el c))) = Returned st"
  shows "(\<exists>c1. shadowHTML (state (el c1))
                 = ''<style>'' @ styles @ ''</style>''
                   @ (case ev template (shadowProperties c) st of Inl e \<Rightarrow> [] | Inr x \<Rightarrow> x)
              \<and> runRenderPipeline ev c
                 = forEach_step ev c1
                     (case postRender (el c) of None \<Rightarrow> [] | Some g \<Rightarrow> [PostRenderStep]))
         \<and> (postRender (el c) = None \<longrightarrow>
               thrown (runRenderPipeline ev c) = None
               \<and> shadowHTML (state (el (state_of (runRenderPipeline ev c))))
                   = ''<style>'' @ styles @ ''</style>''
                     @ (case ev template (shadowProperties c) st of Inl e \<Rightarrow> [] | Inr x \<Rightarrow> x))"
proof -
  let ?markup = "''<style>'' @ styles @ ''</style>''
                   @ (case ev template (shadowProperties c) st of Inl e \<Rightarrow> [] | Inr x \<Rightarrow> x)"
  let ?post = "case postRender (el c) of None \<Rightarrow> [] | Some g \<Rightarrow> [PostRenderStep]"
  from configureTemplate_frame [of c0 ev template styles opts] conf
  have wiring: "same_wiring c0 c" and enabled: "renderPipelineEnabled c = renderPipelineEnabled c0"
    and t: "rawTemplate c = Some template" and s: "rawStyles c = Some styles"
    by simp_all
  from wiring root plain built
  have root': "hasShadowRoot (el c)" and plain': "render (el c) = None"
    and built': "customRenderPipeline c = build_pipeline (el c)"
    by (simp_all add: same_wiring_def build_pipeline_def)
  from enabled on t s ne
  have run: "runRenderPipeline ev c = forEach_step ev c (customRenderPipeline c)"
    by (simp add: runRenderPipeline_steps falsy_def)
  define cp where "cp = (case preRender (el c) of
                           None \<Rightarrow> c
                         | Some f \<Rightarrow> with_state (c\<lparr>invoked := invoked c @ [PreRenderStep]\<rparr>) st)"
  define c1 where "c1 = defaultRenderPipeline ev (cp\<lparr>invoked := invoked cp @ [DefaultRenderStep]\<rparr>)"
  have cp: "hasShadowRoot (el cp)" "rawTemplate cp = Some template" "rawStyles cp = Some styles"
    "shadowProperties cp = shadowProperties c" "state (el cp) = st"
    using root' t s pre by (simp_all add: cp_def with_state_def split: option.splits)
  have before: "forEach_step ev c (customRenderPipeline c) = forEach_step ev cp (DefaultRenderStep # ?post)"
    using pre built' plain'
    by (simp add: build_pipeline_default cp_def run_step_def call_hook_def split: option.splits)
  from default_step_markup [OF cp(1,2,3) ne(2), of ev] cp(4,5)
  have step: "run_step ev cp DefaultRenderStep = Returned c1"
    and html: "shadowHTML (state (el c1)) = ?markup"
    by (simp_all add: c1_def)
  from run before step have rest: "runRenderPipeline ev c = forEach_step ev c1 ?post"
    by simp
  have last: "thrown (runRenderPipeline ev c) = None
               \<and> shadowHTML (state (el (state_of (runRenderPipeline ev c)))) = ?markup"
    if "postRender (el c) = None"
    using that rest html by simp
  from html rest last show ?thesis by blast
qed

theorem default_step_writes_the_markup_witness:
  "hasShadowRoot (el greeting_wc) \<and> render (el greeting_wc) = None
   \<and> customRenderPipeline greeting_wc = build_pipeline (el greeting_wc)
   \<and> renderPipelineEnabled greeting_wc
   \<and> ''Hello, ${this.name}!'' \<noteq> [] \<and> ''span{color:red}'' \<noteq> []
   \<and> preRender (el greeting_shown) = None \<and> postRender (el greeting_shown) = None
   \<and> js_eval ''Hello, ${this.name}!'' (shadowProperties greeting_shown) (state (el greeting_shown))
       = Inr ''Hello, World!''
   \<and> thrown (runRenderPipeline js_eval greeting_shown) = None
   \<and> shadowHTML (state (el (state_of (runRenderPipeline js_eval greeting_shown))))
       = ''<style>span{color:red}</style>Hello, World!''"
proof -
  have root: "hasShadowRoot (el greeting_wc)" and plain: "render (el greeting_wc) = None"
    and built: "customRenderPipeline greeting_wc = build_pipeline (el greeting_wc)"
    and on: "renderPipelineEnabled greeting_wc"
    by (simp_all add: model_defs example_defs)
  have ne: "''Hello, ${this.name}!'' \<noteq> []" "''span{color:red}'' \<noteq> []" by simp_all
  have conf: "greeting_shown = state_of (configureTemplate js_eval greeting_wc
      ''Hello, ${this.name}!'' ''span{color:red}'' None)"
    by (simp add: greeting_shown_def)
  have hooks: "preRender (el greeting_shown) = None" "postRender (el greeting_shown) = None"
    by (simp_all add: model_defs example_defs Let_def)
  then have pre: "(case preRender (el greeting_shown) of
                 None \<Rightarrow> Returned (state (el greeting_shown))
               | Some f \<Rightarrow> f (shadowProperties greeting_shown) (state (el greeting_shown)))
             = Returned (state (el greeting_shown))"
    by simp
  have ev: "js_eval ''Hello, ${this.name}!'' (shadowProperties greeting_shown)
      (state (el greeting_shown)) = Inr ''Hello, World!''"
    using greeting_shown_html by (simp add: js_eval_def host_props_def)
  from default_step_writes_the_markup [OF root plain built on ne conf pre] hooks(2) ev
  have "thrown (runRenderPipeline js_eval greeting_shown) = None
   \<and> shadowHTML (state (el (state_of (runRenderPipeline js_eval greeting_shown))))
       = ''<style>span{color:red}</style>Hello, World!''"
    by simp
  with root plain built on hooks ev show ?thesis by simp
qed

text \<open>
  The claim as stated is about every host without a \<open>render\<close> hook. On a paused
  component, and on a host whose \<open>preRender\<close> throws, the shadow root is still empty
  after the run; on a host whose \<open>postRender\<close> draws, it holds more than the markup.
\<close>

theorem paused_or_failing_run_leaves_root_empty:
  "LightWebComponent_new greeting None None = Inr greeting_wc
   \<and> render (el (pauseRenderPipeline greeting_wc)) = None
   \<and> shadowHTML (state (el (state_of (runRenderPipeline js_eval
        (state_of (configureTemplate js_eval (pauseRenderPipeline greeting_wc)
           ''Hello, ${this.name}!'' ''span{color:red}'' None)))))) = []
   \<and> LightWebComponent_new broken None None = Inr broken_new
   \<and> render (el broken_new) = None
   \<and> renderPipelineEnabled broken_new
   \<and> thrown (runRenderPipeline js_eval
        (state_of (configureTemplate js_eval broken_new ''<p>chart</p>'' ''p{margin:0}'' None)))
       = Some (HostError ''no data'')
   \<and> shadowHTML (state (el (state_of (runRenderPipeline js_eval
        (state_of (configureTemplate js_eval broken_new ''<p>chart</p>'' ''p{margin:0}'' None))))))
       = []
   \<and> LightWebComponent_new chart None None = Inr chart_new
   \<and> render (el chart_new) = None
   \<and> renderPipelineEnabled chart_new
   \<and> thrown (runRenderPipeline js_eval
        (state_of (configureTemplate js_eval chart_new ''<canvas></canvas>''
           ''canvas{display:block}'' None))) = None
   \<and> shadowHTML (state (el (state_of (runRenderPipeline js_eval
        (state_of (configureTemplate js_eval chart_new ''<canvas></canvas>''
           ''canvas{display:block}'' None))))))
       = ''<style>canvas{display:block}</style><canvas></canvas><!--drawn-->''"
  by (simp add: model_defs example_defs broken_def broken_new_def chart_def chart_new_def Let_def)

section \<open>Pausing and resuming\<close>




section \<open>A template that fails to evaluate\<close>

text \<open>
  Claim C8. When evaluating the stored template throws, \<open>evaluateTemplate\<close> catches
  the exception, logs it and gives the empty string; the default render step returns
  without throwing, and the shadow root then holds the style block and nothing else. A
  run of the pipeline on a host without hooks therefore returns to its caller as well.
\<close>

theorem template_failure_leaves_style_block:
  assumes fails: "ev (interpolate (rawTemplate c)) (shadowProperties c) (state (el c)) = Inl e"
    and root: "hasShadowRoot (el c)"
  shows "evaluateTemplate ev c
           = ([], c\<lparr>console := console c @ [(''Error evaluating template:'', Some e)]\<rparr>)
         \<and> thrown (run_step ev c DefaultRenderStep) = None
         \<and> console (state_of (run_step ev c DefaultRenderStep))
             = console c @ [(''Error evaluating template:'', Some e)]
         \<and> shadowHTML (state (el (state_of (run_step ev c DefaultRenderStep))))
             = ''<style>'' @ (case rawStyles c of None \<Rightarrow> [] | Some s \<Rightarrow> s) @ ''</style>''
         \<and> shadowHTML (state (el (defaultRenderPipeline ev c)))
             = ''<style>'' @ (case rawStyles c of None \<Rightarrow> [] | Some s \<Rightarrow> s) @ ''</style>''
         \<and> (renderPipelineEnabled c \<and> \<not> falsy (rawTemplate c) \<and> \<not> falsy (rawStyles c)
              \<and> customRenderPipeline c = [DefaultRenderStep] \<longrightarrow>
              thrown (runRenderPipeline ev c) = None
              \<and> console (state_of (runRenderPipeline ev c))
                  = console c @ [(''Error evaluating template:'', Some e)]
              \<and> shadowHTML (state (el (state_of (runRenderPipeline ev c))))
                  = ''<style>'' @ (case rawStyles c of None \<Rightarrow> [] | Some s \<Rightarrow> s) @ ''</style>'')"
proof -
  have step: "evaluateTemplate ev c
           = ([], c\<lparr>console := console c @ [(''Error evaluating template:'', Some e)]\<rparr>)
         \<and> thrown (run_step ev c DefaultRenderStep) = None
         \<and> console (state_of (run_step ev c DefaultRenderStep))
             = console c @ [(''Error evaluating template:'', Some e)]
         \<and> shadowHTML (state (el (state_of (run_step ev c DefaultRenderStep))))
             = ''<style>'' @ (case rawStyles c of None \<Rightarrow> [] | Some s \<Rightarrow> s) @ ''</style>''
         \<and> shadowHTML (state (el (defaultRenderPipeline ev c)))
             = ''<style>'' @ (case rawStyles c of None \<Rightarrow> [] | Some s \<Rightarrow> s) @ ''</style>''"
    using fails root
    by (simp add: evaluateTemplate_def run_step_def defaultRenderPipeline_def evaluateStyles_def
          renderTemplate_def with_state_def or_null_def interpolate_def split: option.splits)
  have whole: "thrown (runRenderPipeline ev c) = None
              \<and> console (state_of (runRenderPipeline ev c))
                  = console c @ [(''Error evaluating template:'', Some e)]
              \<and> shadowHTML (state (el (state_of (runRenderPipeline ev c))))
                  = ''<style>'' @ (case rawStyles c of None \<Rightarrow> [] | Some s \<Rightarrow> s) @ ''</style>''"
    if ready: "renderPipelineEnabled c \<and> \<not> falsy (rawTemplate c) \<and> \<not> falsy (rawStyles c)
              \<and> customRenderPipeline c = [DefaultRenderStep]"
  proof -
    from step obtain c' where c': "run_step ev c DefaultRenderStep = Returned c'"
      by (cases "run_step ev c DefaultRenderStep") simp_all
    with ready have "runRenderPipeline ev c = Returned c'"
      by (simp add: runRenderPipeline_def)
    with step c' show ?thesis by simp
  qed
  from step whole show ?thesis by blast
qed

theorem template_failure_leaves_style_block_witness:
  "js_eval (interpolate (rawTemplate unreadable)) (shadowProperties unreadable)
       (state (el unreadable)) = Inl TypeError
   \<and> hasShadowRoot (el unreadable)
   \<and> renderPipelineEnabled unreadable
   \<and> \<not> falsy (rawTemplate unreadable) \<and> \<not> falsy (rawStyles unreadable)
   \<and> customRenderPipeline unreadable = [DefaultRenderStep]
   \<and> thrown (runRenderPipeline js_eval unreadable) = None
   \<and> console (state_of (runRenderPipeline js_eval unreadable))
       = [(''Error evaluating template:'', Some TypeError)]
   \<and> shadowHTML (state (el (state_of (runRenderPipeline js_eval unreadable))))
       = ''<style>p{margin:0}</style>''"
proof -
  have fails: "js_eval (interpolate (rawTemplate unreadable)) (shadowProperties unreadable)
       (state (el unreadable)) = Inl TypeError"
    and root: "hasShadowRoot (el unreadable)"
    and ready: "renderPipelineEnabled unreadable \<and> \<not> falsy (rawTemplate unreadable)
       \<and> \<not> falsy (rawStyles unreadable) \<and> customRenderPipeline unreadable = [DefaultRenderStep]"
    using unreadable_fields by (simp_all add: falsy_def)
  note inst = template_failure_leaves_style_block [of js_eval unreadable TypeError, OF fails root]
  from inst ready
  have "thrown (runRenderPipeline js_eval unreadable) = None
      \<and> console (state_of (runRenderPipeline js_eval unreadable))
          = console unreadable @ [(''Error evaluating template:'', Some TypeError)]
      \<and> shadowHTML (state (el (state_of (runRenderPipeline js_eval unreadable))))
          = ''<style>'' @ (case rawStyles unreadable of None \<Rightarrow> [] | Some s \<Rightarrow> s) @ ''</style>''"
    by blast
  with fails root ready unreadable_fields show ?thesis by simp
qed

section \<open>Intercepting twice\<close>

text \<open>
  Claim C9. Running \<open>watchForFieldChanges\<close> a second time changes nothing, and a
  property that is already intercepted stays an intercepted accessor with the value it
  holds: the stored value is not overwritten and what reading it gives is as before.
\<close>

theorem interception_is_idempotent:
  "watchForFieldChanges (watchForFieldChanges c) = watchForFieldChanges c
   \<and> (host_props c n = Some Intercepted \<longrightarrow>
        host_props (watchForFieldChanges c) n = Some Intercepted
        \<and> shadowProperties (watchForFieldChanges c) n = shadowProperties c n
        \<and> host_get (watchForFieldChanges c) n = host_get c n)"
proof -
  have kept: "host_props (watchForFieldChanges c) n = Some Intercepted
        \<and> shadowProperties (watchForFieldChanges c) n = shadowProperties c n
        \<and> host_get (watchForFieldChanges c) n = host_get c n"
    if acc: "host_props c n = Some Intercepted"
  proof -
    from acc have no: "\<not> interceptable (host_props c n)" by (simp add: interceptable_def)
    have "host_props (watchForFieldChanges c) n = host_props c n
        \<and> shadowProperties (watchForFieldChanges c) n = shadowProperties c n"
      using foldl_intercept_skipped [OF no]
      by (simp add: watchForFieldChanges_def split: option.splits)
    with acc show ?thesis by (simp add: host_get_def own_value_def getInterceptedProperty_def)
  qed
  with watch_idem [of c] show ?thesis by blast
qed

theorem interception_is_idempotent_witness:
  "host_props renamed ''name'' = Some Intercepted
   \<and> shadowProperties renamed ''name'' = Some ''Ada''
   \<and> host_props (watchForFieldChanges renamed) ''name'' = Some Intercepted
   \<and> shadowProperties (watchForFieldChanges renamed) ''name'' = Some ''Ada''
   \<and> host_get (watchForFieldChanges renamed) ''name'' = host_get renamed ''name''"
  using interception_is_idempotent [of renamed "''name''"] renamed_fields by simp

section \<open>The empty string\<close>

text \<open>
  Claim C10, amended. The constructor stores null for an empty template or empty styles,
  as it does for a missing one. After \<open>configureTemplate\<close> with an empty template or
  empty styles on a component whose pipeline is enabled, nothing has been rendered (the
  immediate render, when asked for, has logged the missing configuration instead) and
  \<open>runRenderPipeline\<close> logs the missing configuration and renders nothing.
\<close>

theorem empty_string_counts_as_absent:
  "LightWebComponent_new h (Some []) s = LightWebComponent_new h None s
   \<and> LightWebComponent_new h t (Some []) = LightWebComponent_new h t None
   \<and> (LightWebComponent_new h (Some []) (Some []) = Inr c0 \<longrightarrow>
        rawTemplate c0 = None \<and> rawStyles c0 = None)
   \<and> (renderPipelineEnabled c \<and> (t' = [] \<or> s' = []) \<longrightarrow>
        (let c1 = state_of (configureTemplate ev c t' s' opts)
         in thrown (configureTemplate ev c t' s' opts) = None
            \<and> console c1 = console c @ (if immediate opts then [not_configured] else [])
            \<and> invoked c1 = invoked c
            \<and> shadowHTML (state (el c1)) = shadowHTML (state (el c))
            \<and> runRenderPipeline ev c1 = Returned (c1\<lparr>console := console c1 @ [not_configured]\<rparr>)))"
proof -
  have new: "LightWebComponent_new h (Some []) s = LightWebComponent_new h None s"
    "LightWebComponent_new h t (Some []) = LightWebComponent_new h t None"
    by (simp_all add: LightWebComponent_new_def or_null_def)
  have null: "rawTemplate c0 = None \<and> rawStyles c0 = None"
    if "LightWebComponent_new h (Some []) (Some []) = Inr c0"
    using that by (auto simp: LightWebComponent_new_def or_null_def split: if_splits)
  have run: "thrown (configureTemplate ev c t' s' opts) = None
            \<and> console c1 = console c @ (if immediate opts then [not_configured] else [])
            \<and> invoked c1 = invoked c
            \<and> shadowHTML (state (el c1)) = shadowHTML (state (el c))
            \<and> runRenderPipeline ev c1 = Returned (c1\<lparr>console := console c1 @ [not_configured]\<rparr>)"
    if on: "renderPipelineEnabled c" and empty: "t' = [] \<or> s' = []"
      and c1: "c1 = state_of (configureTemplate ev c t' s' opts)" for c1
  proof -
    let ?st = "stored c t' s' opts"
    from stored_frame [of c t' s' opts] on empty
    have f: "renderPipelineEnabled ?st" "falsy (rawTemplate ?st) \<or> falsy (rawStyles ?st)"
      "invoked ?st = invoked c" "console ?st = console c"
      "shadowHTML (state (el ?st)) = shadowHTML (state (el c))"
      by (auto simp: falsy_def nothing_rendered_def)
    then have logged: "runRenderPipeline ev ?st = Returned (?st\<lparr>console := console ?st @ [not_configured]\<rparr>)"
      by (simp add: runRenderPipeline_def)
    show ?thesis
    proof (cases "immediate opts")
      case True
      with logged have "configureTemplate ev c t' s' opts
          = Returned (?st\<lparr>console := console ?st @ [not_configured]\<rparr>)"
        by (simp add: configureTemplate_stored)
      with c1 f True show ?thesis by (simp add: runRenderPipeline_def)
    next
      case False
      then have "configureTemplate ev c t' s' opts = Returned ?st"
        by (simp add: configureTemplate_stored)
      with c1 f False logged show ?thesis by simp
    qed
  qed
  show ?thesis
  proof (intro conjI)
    show "LightWebComponent_new h (Some []) s = LightWebComponent_new h None s"
      by (rule new(1))
    show "LightWebComponent_new h t (Some []) = LightWebComponent_new h t None"
      by (rule new(2))
    show "LightWebComponent_new h (Some []) (Some []) = Inr c0 \<longrightarrow>
        rawTemplate c0 = None \<and> rawStyles c0 = None"
      using null by (rule impI)
    show "renderPipelineEnabled c \<and> (t' = [] \<or> s' = []) \<longrightarrow>
        (let c1 = state_of (configureTemplate ev c t' s' opts)
         in thrown (configureTemplate ev c t' s' opts) = None
            \<and> console c1 = console c @ (if immediate opts then [not_configured] else [])
            \<and> invoked c1 = invoked c
            \<and> shadowHTML (state (el c1)) = shadowHTML (state (el c))
            \<and> runRenderPipeline ev c1 = Returned (c1\<lparr>console := console c1 @ [not_configured]\<rparr>))"
      unfolding Let_def
    proof (rule impI, elim conjE)
      assume "renderPipelineEnabled c" "t' = [] \<or> s' = []"
      then show "thrown (configureTemplate ev c t' s' opts) = None
            \<and> console (state_of (configureTemplate ev c t' s' opts))
                = console c @ (if immediate opts then [not_configured] else [])
            \<and> invoked (state_of (configureTemplate ev c t' s' opts)) = invoked c
            \<and> shadowHTML (state (el (state_of (configureTemplate ev c t' s' opts))))
                = shadowHTML (state (el c))
            \<and> runRenderPipeline ev (state_of (configureTemplate ev c t' s' opts))
                = Returned ((state_of (configureTemplate ev c t' s' opts))
                    \<lparr>console := console (state_of (configureTemplate ev c t' s' opts))
                                  @ [not_configured]\<rparr>)"
        by (rule run [OF _ _ refl])
    qed
  qed
qed

theorem empty_string_counts_as_absent_witness:
  "LightWebComponent_new greeting (Some []) (Some []) = Inr greeting_wc
   \<and> rawTemplate greeting_wc = None \<and> rawStyles greeting_wc = None
   \<and> renderPipelineEnabled greeting_wc \<and> ([] :: string) = []
   \<and> console (state_of (configureTemplate js_eval greeting_wc [] ''span{color:red}'' None))
       = [not_configured]
   \<and> invoked (state_of (configureTemplate js_eval greeting_wc [] ''span{color:red}'' None)) = []"
proof -
  note inst = empty_string_counts_as_absent [of greeting "Some []" None greeting_wc greeting_wc
      "[]" "''span{color:red}''" js_eval None]
  have new: "LightWebComponent_new greeting (Some []) (Some []) = Inr greeting_wc"
    using inst greeting_wc_new by simp
  with inst have null: "rawTemplate greeting_wc = None \<and> rawStyles greeting_wc = None"
    by blast
  have on: "renderPipelineEnabled greeting_wc" using greeting_wc_fields by simp
  have im: "immediate None" by (simp add: immediate_def)
  from inst on
  have "console (state_of (configureTemplate js_eval greeting_wc [] ''span{color:red}'' None))
          = console greeting_wc @ (if immediate None then [not_configured] else [])
        \<and> invoked (state_of (configureTemplate js_eval greeting_wc [] ''span{color:red}'' None))
          = invoked greeting_wc"
    unfolding Let_def by blast
  with im greeting_wc_fields new null on show ?thesis by simp
qed

text \<open>
  The claim as stated has the error logged after any such \<open>configureTemplate\<close>. On a
  paused component nothing is logged.
\<close>

theorem empty_template_paused_logs_nothing:
  "LightWebComponent_new greeting None None = Inr greeting_wc
   \<and> \<not> renderPipelineEnabled (pauseRenderPipeline greeting_wc)
   \<and> console (pauseRenderPipeline greeting_wc) = []
   \<and> rawTemplate (state_of (configureTemplate js_eval (pauseRenderPipeline greeting_wc)
        [] ''span{color:red}'' None)) = Some []
   \<and> console (state_of (runRenderPipeline js_eval
        (state_of (configureTemplate js_eval (pauseRenderPipeline greeting_wc)
           [] ''span{color:red}'' None)))) = []"
  by (simp add: model_defs example_defs Let_def)

end
